theory Spec2Isabelle
  imports Main "HOL-Library.Word"
begin

section \<open>JavaScript strings\<close>

text \<open>
  A JavaScript string is a sequence of UTF-16 code units; \<^verbatim>\<open>s.length\<close> counts code
  units and \<^verbatim>\<open>s === ""\<close> holds for the empty sequence only.
\<close>

type_synonym jsstring = "16 word list"

text \<open>ASCII literals, for concrete inputs.\<close>

definition js :: "string \<Rightarrow> jsstring" where
  "js s = map of_char s"

text \<open>
  The code units removed by \<^verbatim>\<open>String.prototype.trim\<close>: the WhiteSpace and
  LineTerminator productions of ECMAScript (TAB, VT, FF, SP, NBSP, ZWNBSP, the Unicode
  space separators, LF, CR, LS, PS).
\<close>

definition isWhiteSpace :: "16 word \<Rightarrow> bool" where
  "isWhiteSpace c \<longleftrightarrow>
     c \<in> set [0x0009, 0x000A, 0x000B, 0x000C, 0x000D, 0x0020, 0x00A0, 0x1680,
                0x2028, 0x2029, 0x202F, 0x205F, 0x3000, 0xFEFF]
     \<or> (0x2000 \<le> c \<and> c \<le> 0x200A)"

definition trim :: "jsstring \<Rightarrow> jsstring" where
  "trim s = rev (dropWhile isWhiteSpace (rev (dropWhile isWhiteSpace s)))"

section \<open>The form data and the schema of the contact form\<close>

text \<open>
  The component \<^verbatim>\<open>Form\<close>: six inputs, of which website is shown only when company
  has a value.
\<close>

datatype fieldName = FirstName | LastName | Company | Website | Email | Message

text \<open>
  An optional member of an object: the object has no such key, or it has the key, which
  holds \<^verbatim>\<open>undefined\<close> (\<open>None\<close>) or a string. Reading the member gives \<^verbatim>\<open>undefined\<close>
  in the first two cases alike; \<^verbatim>\<open>key in object\<close> tells them apart.
\<close>

datatype optionalMember = Absent | Present "jsstring option"

fun memberValue :: "optionalMember \<Rightarrow> jsstring option" where
  "memberValue Absent = None"
| "memberValue (Present v) = v"

text \<open>
  \<^verbatim>\<open>type Inputs = z.infer<typeof schema>\<close>: the four required members are strings,
  \<^verbatim>\<open>company\<close> and \<^verbatim>\<open>website\<close> are optional.
\<close>

record Inputs =
  firstName :: jsstring
  lastName :: jsstring
  company :: optionalMember
  website :: optionalMember
  email :: jsstring
  message :: jsstring

text \<open>The keys a record has, in the order of the object shape.\<close>

definition ownKeys :: "Inputs \<Rightarrow> fieldName list" where
  "ownKeys d =
     [FirstName, LastName] @
     (case company d of Absent \<Rightarrow> [] | Present v \<Rightarrow> [Company]) @
     (case website d of Absent \<Rightarrow> [] | Present v \<Rightarrow> [Website]) @
     [Email, Message]"

text \<open>An issue of the schema: the path of the member and the message.\<close>

type_synonym issue = "fieldName \<times> string"

text \<open>
  The two format checks of the schema library are not part of the repository, so the
  schema takes them as a parameter: \<open>z_url u\<close> is the result of \<^verbatim>\<open>z.url()\<close> on the
  string \<open>u\<close> (\<open>None\<close> when it is rejected, otherwise the value the parse returns), and
  \<open>z_email e\<close> tells whether \<^verbatim>\<open>z.email()\<close> accepts \<open>e\<close>. The older chained form
  \<^verbatim>\<open>z.string().email()\<close> of the second component is the same check.
\<close>

record zod =
  z_url :: "jsstring \<Rightarrow> jsstring option"
  z_email :: "jsstring \<Rightarrow> bool"

text \<open>\<^verbatim>\<open>z.string().min(n, msg)\<close> on a string: one issue when \<^verbatim>\<open>v.length < n\<close>.\<close>

definition string_min :: "nat \<Rightarrow> string \<Rightarrow> fieldName \<Rightarrow> jsstring \<Rightarrow> issue list" where
  "string_min n msg f v = (if length v < n then [(f, msg)] else [])"

text \<open>
  The issues of \<^verbatim>\<open>schema\<close> on a record, member by member in the order of the object
  shape. \<^verbatim>\<open>z.string().optional()\<close> accepts \<^verbatim>\<open>undefined\<close> and every string;
  \<^verbatim>\<open>z.url().optional()\<close> accepts \<^verbatim>\<open>undefined\<close> and otherwise runs the URL check,
  whose default message is the one the test suite expects (\<^verbatim>\<open>Invalid URL\<close>).
  No rule looks at another member.
\<close>

definition schema_issues :: "zod \<Rightarrow> Inputs \<Rightarrow> issue list" where
  "schema_issues z d =
     string_min 2 ''First name must be at least 2 characters.'' FirstName (firstName d) @
     string_min 2 ''Last name must be at least 2 characters.'' LastName (lastName d) @
     (case memberValue (company d) of None \<Rightarrow> [] | Some c \<Rightarrow> []) @
     (case memberValue (website d) of
        None \<Rightarrow> []
      | Some u \<Rightarrow> (case z_url z u of None \<Rightarrow> [(Website, ''Invalid URL'')] | Some u' \<Rightarrow> [])) @
     (if z_email z (email d) then [] else [(Email, ''Please enter a valid email address.'')]) @
     string_min 10 ''Message must be at least 10 characters.'' Message (message d)"

text \<open>
  The record the schema returns when there is no issue. An optional member that parses to
  \<^verbatim>\<open>undefined\<close> is on the returned record exactly when its key is on the given one.
\<close>

definition schema_output :: "zod \<Rightarrow> Inputs \<Rightarrow> Inputs" where
  "schema_output z d =
     d\<lparr>website :=
         (case website d of
            Absent \<Rightarrow> Absent
          | Present None \<Rightarrow> Present None
          | Present (Some u) \<Rightarrow> Present (z_url z u))\<rparr>"

text \<open>
  \<^verbatim>\<open>zodResolver(schema)\<close>: the errors by member (\<open>Inl\<close>) or the parsed record
  (\<open>Inr\<close>). The resolver keeps the first issue of each path; \<open>schema_issues\<close> has at
  most one issue for a path, so the errors are the issues.
\<close>

definition zodResolver :: "zod \<Rightarrow> Inputs \<Rightarrow> issue list + Inputs" where
  "zodResolver z d =
     (if schema_issues z d = [] then Inr (schema_output z d) else Inl (schema_issues z d))"

section \<open>Registration of the inputs and the conditional field\<close>

text \<open>
  \<^verbatim>\<open>setValueAs: (v) => (typeof v === "string" && v.trim() === "" ? undefined : v)\<close>,
  the option given when \<^verbatim>\<open>company\<close> and \<^verbatim>\<open>website\<close> are registered.
\<close>

fun setValueAs :: "jsstring option \<Rightarrow> jsstring option" where
  "setValueAs None = None"
| "setValueAs (Some v) = (if trim v = [] then None else Some v)"

text \<open>Truthiness of a value that is a string or \<^verbatim>\<open>undefined\<close>.\<close>

fun truthy :: "jsstring option \<Rightarrow> bool" where
  "truthy None = False"
| "truthy (Some v) = (v \<noteq> [])"

text \<open>\<^verbatim>\<open>const companyValue = watch("company")\<close>: the value the form holds for company.\<close>

definition companyValue :: "Inputs \<Rightarrow> jsstring option" where
  "companyValue d = memberValue (company d)"

text \<open>
  The inputs the component renders: the five unconditional ones, and the website input
  inside \<^verbatim>\<open>{companyValue && (...)}\<close>.
\<close>

definition activeFields :: "Inputs \<Rightarrow> fieldName set" where
  "activeFields d =
     set ([FirstName, LastName, Company] @
          (if truthy (companyValue d) then [Website] else []) @
          [Email, Message])"

text \<open>
  The text entered into each of the six inputs. The website text is the one last entered
  while that input was shown.
\<close>

record RawFormInput =
  firstNameText :: jsstring
  lastNameText :: jsstring
  companyText :: jsstring
  websiteText :: jsstring
  emailText :: jsstring
  messageText :: jsstring

text \<open>
  The values the form holds for these texts: the text itself for the four required
  inputs, which are registered without \<^verbatim>\<open>setValueAs\<close>, and \<open>setValueAs\<close> of the text
  for company and website. Registration stores the value under the key of the input, also
  when the value is \<^verbatim>\<open>undefined\<close>. (A form whose website input has never been rendered
  has no website key yet: see \<open>initialState\<close> and \<open>registerWebsite\<close>.)
\<close>

definition fieldValues :: "RawFormInput \<Rightarrow> Inputs" where
  "fieldValues c =
     \<lparr>firstName = firstNameText c,
      lastName = lastNameText c,
      company = Present (setValueAs (Some (companyText c))),
      website = Present (setValueAs (Some (websiteText c))),
      email = emailText c,
      message = messageText c\<rparr>"

section \<open>The submission lifecycle\<close>

text \<open>
  The members \<^verbatim>\<open>JSON.stringify(data, null, 2)\<close> writes, in order: a member whose value
  is \<^verbatim>\<open>undefined\<close> is left out.
\<close>

definition json_members :: "Inputs \<Rightarrow> (fieldName \<times> jsstring) list" where
  "json_members d =
     [(FirstName, firstName d), (LastName, lastName d)] @
     (case memberValue (company d) of None \<Rightarrow> [] | Some c \<Rightarrow> [(Company, c)]) @
     (case memberValue (website d) of None \<Rightarrow> [] | Some u \<Rightarrow> [(Website, u)]) @
     [(Email, email d), (Message, message d)]"

text \<open>
  The state of one mounted form: the values held by \<^verbatim>\<open>useForm\<close>, the errors of the
  last submit attempt, the \<^verbatim>\<open>isSubmitting\<close> flag, the records of the \<^verbatim>\<open>onSubmit\<close>
  promises that are still pending (each waits for its timer), and the calls of
  \<^verbatim>\<open>alert\<close> made so far.
\<close>

record FormState =
  formValues :: Inputs
  errors :: "issue list"
  isSubmitting :: bool
  pending :: "Inputs list"
  alerts :: "(fieldName \<times> jsstring) list list"

text \<open>
  The form after mounting: text inputs are empty, company is registered with
  \<open>setValueAs\<close> (which maps the empty text to \<^verbatim>\<open>undefined\<close>, stored under the company
  key), website is not rendered and has no key.
\<close>

definition initialState :: FormState where
  "initialState =
     \<lparr>formValues = \<lparr>firstName = [], lastName = [], company = Present (setValueAs (Some [])),
                     website = Absent, email = [], message = []\<rparr>,
      errors = [], isSubmitting = False, pending = [], alerts = []\<rparr>"

text \<open>
  \<^verbatim>\<open>handleSubmit(onSubmit)\<close>: runs the resolver on the held values; when they are valid
  it calls \<open>onSubmit\<close> with the parsed record, whose promise stays pending until its
  timer fires, and \<^verbatim>\<open>isSubmitting\<close> is set while it is pending; otherwise it reports
  the errors and calls nothing.
\<close>

definition handleSubmit :: "zod \<Rightarrow> FormState \<Rightarrow> FormState" where
  "handleSubmit z s =
     (case zodResolver z (formValues s) of
        Inl errs \<Rightarrow> s\<lparr>errors := errs\<rparr>
      | Inr data \<Rightarrow> s\<lparr>errors := [], isSubmitting := True, pending := pending s @ [data]\<rparr>)"

text \<open>
  What can happen to the form: the user changes the text of an input, the user activates
  the submit button, or the timer of the oldest pending \<open>onSubmit\<close> fires.
\<close>

datatype event = Change fieldName jsstring | Submit | TimerFires

text \<open>
  When the website input is rendered it is registered: a held string stays (and is shown
  in the input), otherwise the value of the new, empty input is stored under the key.
\<close>

definition registerWebsite :: "Inputs \<Rightarrow> Inputs" where
  "registerWebsite d =
     (case memberValue (website d) of
        None \<Rightarrow> d\<lparr>website := Present (setValueAs (Some []))\<rparr>
      | Some u \<Rightarrow> d)"

text \<open>
  A change of the company text: the registered value is stored, and when it is truthy the
  website input is rendered, and so registered.
\<close>

definition changeCompany :: "jsstring \<Rightarrow> Inputs \<Rightarrow> Inputs" where
  "changeCompany v d =
     (let d' = d\<lparr>company := Present (setValueAs (Some v))\<rparr>
      in if truthy (companyValue d') then registerWebsite d' else d')"

text \<open>
  \<^item> A change stores the registered value. The website input exists only while
    \<open>companyValue\<close> is truthy. \<^verbatim>\<open>useForm\<close> is called without \<^verbatim>\<open>shouldUnregister\<close>, so
    the value of an input that is no longer rendered stays in the held values.
  \<^item> The submit button is \<^verbatim>\<open>disabled={isSubmitting}\<close>: activating it then does nothing.
  \<^item> The timer callback calls \<^verbatim>\<open>alert(JSON.stringify(data, null, 2))\<close> and resolves the
    promise, after which \<^verbatim>\<open>isSubmitting\<close> is cleared. The promise is built from its
    \<^verbatim>\<open>resolve\<close> callback alone: a pending \<open>onSubmit\<close> ends in no other way.
\<close>

fun step :: "zod \<Rightarrow> FormState \<Rightarrow> event \<Rightarrow> FormState" where
  "step z s (Change FirstName v) = s\<lparr>formValues := (formValues s)\<lparr>firstName := v\<rparr>\<rparr>"
| "step z s (Change LastName v) = s\<lparr>formValues := (formValues s)\<lparr>lastName := v\<rparr>\<rparr>"
| "step z s (Change Company v) = s\<lparr>formValues := changeCompany v (formValues s)\<rparr>"
| "step z s (Change Website v) =
     (if truthy (companyValue (formValues s))
      then s\<lparr>formValues := (formValues s)\<lparr>website := Present (setValueAs (Some v))\<rparr>\<rparr>
      else s)"
| "step z s (Change Email v) = s\<lparr>formValues := (formValues s)\<lparr>email := v\<rparr>\<rparr>"
| "step z s (Change Message v) = s\<lparr>formValues := (formValues s)\<lparr>message := v\<rparr>\<rparr>"
| "step z s Submit = (if isSubmitting s then s else handleSubmit z s)"
| "step z s TimerFires =
     (case pending s of
        [] \<Rightarrow> s
      | data # rest \<Rightarrow>
          s\<lparr>alerts := alerts s @ [json_members data], pending := rest, isSubmitting := False\<rparr>)"

text \<open>A sequence of events, from left to right.\<close>

definition run :: "zod \<Rightarrow> FormState \<Rightarrow> event list \<Rightarrow> FormState" where
  "run z s es = foldl (step z) s es"

text \<open>The states a mounted form can be in.\<close>

inductive reachable :: "zod \<Rightarrow> FormState \<Rightarrow> bool" for z :: zod where
  reachable_init: "reachable z initialState"
| reachable_step: "reachable z s \<Longrightarrow> reachable z (step z s ev)"

section \<open>The schema of the second form component\<close>

text \<open>
  The component \<^verbatim>\<open>ProfessionalContactDemo\<close> of \<^verbatim>\<open>src/component/form.tsx\<close>: the four
  required members only, with messages of its own.
\<close>

record ContactInputs =
  contactFirstName :: jsstring
  contactLastName :: jsstring
  contactEmail :: jsstring
  contactMessage :: jsstring

definition contact_schema_issues :: "zod \<Rightarrow> ContactInputs \<Rightarrow> issue list" where
  "contact_schema_issues z d =
     string_min 2 ''Name required.'' FirstName (contactFirstName d) @
     string_min 2 ''Name required.'' LastName (contactLastName d) @
     (if z_email z (contactEmail d) then [] else [(Email, ''Invalid email address.'')]) @
     string_min 10 ''Please provide more details.'' Message (contactMessage d)"

text \<open>A record that supplies the four required members and nothing else.\<close>

definition requiredOnly :: "ContactInputs \<Rightarrow> Inputs" where
  "requiredOnly d =
     \<lparr>firstName = contactFirstName d, lastName = contactLastName d,
      company = Absent, website = Absent,
      email = contactEmail d, message = contactMessage d\<rparr>"

section \<open>Reference format checks for concrete inputs\<close>

text \<open>
  Modelled from the spec: the checks behind \<^verbatim>\<open>z.url()\<close> and \<^verbatim>\<open>z.email()\<close> belong to
  the schema library, which is not in the repository. The specification calls them an
  absolute-URL syntactic check and a syntactic email check. \<open>hasScheme\<close> asks for a
  scheme (a letter, then letters, digits, plus, minus or dot) followed by a colon;
  \<open>emailShape\<close> asks for a non-empty local part, one at sign and a domain with an inner
  dot. They stand in for the library wherever a theorem is evaluated on a concrete input.
\<close>

definition isAlpha :: "16 word \<Rightarrow> bool" where
  "isAlpha c \<longleftrightarrow> (0x41 \<le> c \<and> c \<le> 0x5A) \<or> (0x61 \<le> c \<and> c \<le> 0x7A)"

definition isSchemeChar :: "16 word \<Rightarrow> bool" where
  "isSchemeChar c \<longleftrightarrow>
     isAlpha c \<or> (0x30 \<le> c \<and> c \<le> 0x39) \<or> c = 0x2B \<or> c = 0x2D \<or> c = 0x2E"

definition hasScheme :: "jsstring \<Rightarrow> bool" where
  "hasScheme s =
     (case takeWhile (\<lambda>c. c \<noteq> 0x3A) s of
        [] \<Rightarrow> False
      | c # cs \<Rightarrow> isAlpha c \<and> list_all isSchemeChar cs \<and> 0x3A \<in> set s)"

definition emailShape :: "jsstring \<Rightarrow> bool" where
  "emailShape s =
     (let local = takeWhile (\<lambda>c. c \<noteq> 0x40) s;
          domain = drop 1 (dropWhile (\<lambda>c. c \<noteq> 0x40) s)
      in local \<noteq> [] \<and> domain \<noteq> [] \<and> 0x40 \<notin> set domain \<and> 0x2E \<in> set domain \<and>
         \<not> list_ex isWhiteSpace s \<and>
         (case domain of [] \<Rightarrow> False | c # cs \<Rightarrow> c \<noteq> 0x2E) \<and>
         (case rev domain of [] \<Rightarrow> False | c # cs \<Rightarrow> c \<noteq> 0x2E))"

definition referenceZod :: zod where
  "referenceZod =
     \<lparr>z_url = (\<lambda>u. if hasScheme (trim u) then Some (trim u) else None),
      z_email = emailShape\<rparr>"

section \<open>Rules and concrete inputs\<close>

text \<open>
  The rule of each member, stated on its own: the names have at least two code units,
  the message at least ten, the email passes the email check, company has no rule, and
  website, when a value is held for it, passes the URL check.
\<close>

fun satisfiesRule :: "zod \<Rightarrow> Inputs \<Rightarrow> fieldName \<Rightarrow> bool" where
  "satisfiesRule z d FirstName = (2 \<le> length (firstName d))"
| "satisfiesRule z d LastName = (2 \<le> length (lastName d))"
| "satisfiesRule z d Company = True"
| "satisfiesRule z d Website = (case memberValue (website d) of None \<Rightarrow> True | Some u \<Rightarrow> z_url z u \<noteq> None)"
| "satisfiesRule z d Email = z_email z (email d)"
| "satisfiesRule z d Message = (10 \<le> length (message d))"

text \<open>
  What registration with \<open>setValueAs\<close> leaves of an optional member: the key is there
  and holds \<^verbatim>\<open>undefined\<close> or a string that is not blank.
\<close>

definition keyHoldsNormalized :: "optionalMember \<Rightarrow> bool" where
  "keyHoldsNormalized m =
     (case m of
        Absent \<Rightarrow> False
      | Present None \<Rightarrow> True
      | Present (Some v) \<Rightarrow> trim v \<noteq> [])"

text \<open>
  Events that bring the mounted form to the values of a candidate: company is given a
  value first, so that the website input is shown and takes the candidate's website text,
  and the candidate's company text is entered after that.
\<close>

definition enter :: "RawFormInput \<Rightarrow> event list" where
  "enter c =
     [Change Company (js ''x''), Change Website (websiteText c), Change Company (companyText c),
      Change FirstName (firstNameText c), Change LastName (lastNameText c),
      Change Email (emailText c), Change Message (messageText c)]"

text \<open>The form as mounted, nothing entered.\<close>

definition emptyForm :: RawFormInput where
  "emptyForm =
     \<lparr>firstNameText = [], lastNameText = [], companyText = [], websiteText = [],
      emailText = [], messageText = []\<rparr>"

text \<open>Valid required members, a company and a website text that is no URL.\<close>

definition scenarioB :: RawFormInput where
  "scenarioB =
     \<lparr>firstNameText = js ''John'', lastNameText = js ''Doe'', companyText = js ''Acme'',
      websiteText = js ''not-a-url'', emailText = js ''j@x.com'',
      messageText = js ''0123456789''\<rparr>"

text \<open>Names of two spaces and a company of three.\<close>

definition twoSpaces :: RawFormInput where
  "twoSpaces =
     emptyForm\<lparr>firstNameText := js ''  '', lastNameText := js ''  '', companyText := js ''   ''\<rparr>"

text \<open>A valid record whose company text is blank.\<close>

definition blankCompany :: RawFormInput where
  "blankCompany =
     \<lparr>firstNameText = js ''Jane'', lastNameText = js ''Smith'', companyText = js ''   '',
      websiteText = [], emailText = js ''jane@example.com'',
      messageText = js ''more than ten chars''\<rparr>"

text \<open>A blank company text next to a website text that is a URL.\<close>

definition staleCandidate :: RawFormInput where
  "staleCandidate = scenarioB\<lparr>companyText := js '' '', websiteText := js ''https://acme.io''\<rparr>"

text \<open>
  The user enters a company, enters a website text that is no URL, clears the company
  again and fills in the required inputs.
\<close>

definition staleWebsite :: "event list" where
  "staleWebsite =
     [Change Company (js ''Acme''), Change Website (js ''not-a-url''), Change Company [],
      Change FirstName (js ''John''), Change LastName (js ''Doe''),
      Change Email (js ''j@x.com''), Change Message (js ''0123456789'')]"

text \<open>The same with a website text that is a URL.\<close>

definition staleValidWebsite :: "event list" where
  "staleValidWebsite =
     [Change Company (js ''Acme''), Change Website (js ''https://acme.io''), Change Company [],
      Change FirstName (js ''John''), Change LastName (js ''Doe''),
      Change Email (js ''j@x.com''), Change Message (js ''0123456789'')]"

text \<open>The required inputs filled in validly, the company text blank.\<close>

definition janeSmith :: "event list" where
  "janeSmith =
     [Change FirstName (js ''Jane''), Change LastName (js ''Smith''),
      Change Email (js ''jane@example.com''), Change Message (js ''more than ten chars''),
      Change Company (js ''   '')]"

text \<open>Records for the second component: all four members empty, and all four valid.\<close>

definition contactEmpty :: ContactInputs where
  "contactEmpty =
     \<lparr>contactFirstName = [], contactLastName = [], contactEmail = [], contactMessage = []\<rparr>"

definition contactJane :: ContactInputs where
  "contactJane =
     \<lparr>contactFirstName = js ''Jane'', contactLastName = js ''Smith'',
      contactEmail = js ''jane@example.com'', contactMessage = js ''more than ten chars''\<rparr>"

section \<open>Auxiliary facts\<close>

lemmas eval_defs =
  zodResolver_def schema_issues_def schema_output_def string_min_def fieldValues_def
  referenceZod_def hasScheme_def emailShape_def trim_def js_def isWhiteSpace_def isAlpha_def
  isSchemeChar_def activeFields_def companyValue_def run_def initialState_def handleSubmit_def
  json_members_def changeCompany_def registerWebsite_def ownKeys_def Let_def

subsection \<open>Trimming\<close>

lemma dropWhile_all_iff: "(\<forall>x\<in>set (dropWhile P xs). P x) \<longleftrightarrow> dropWhile P xs = []"
proof
  assume a: "\<forall>x\<in>set (dropWhile P xs). P x"
  show "dropWhile P xs = []"
  proof (rule ccontr)
    assume n: "dropWhile P xs \<noteq> []"
    then have "\<not> P (hd (dropWhile P xs))" by (rule hd_dropWhile)
    moreover have "hd (dropWhile P xs) \<in> set (dropWhile P xs)" using n by simp
    ultimately show False using a by blast
  qed
next
  assume e: "dropWhile P xs = []"
  show "\<forall>x\<in>set (dropWhile P xs). P x" unfolding e by simp
qed

lemma trim_empty_iff: "trim s = [] \<longleftrightarrow> (\<forall>c\<in>set s. isWhiteSpace c)"
proof -
  have "trim s = [] \<longleftrightarrow> (\<forall>x\<in>set (dropWhile isWhiteSpace s). isWhiteSpace x)"
    by (simp add: trim_def)
  also have "\<dots> \<longleftrightarrow> dropWhile isWhiteSpace s = []" by (rule dropWhile_all_iff)
  also have "\<dots> \<longleftrightarrow> (\<forall>c\<in>set s. isWhiteSpace c)" by simp
  finally show ?thesis .
qed

lemma trim_Nil: "trim [] = []"
  by (simp add: trim_def)

lemma truthy_setValueAs: "truthy (setValueAs (Some v)) \<longleftrightarrow> trim v \<noteq> []"
  by (auto simp: trim_Nil)

subsection \<open>Registration\<close>

text \<open>Registering the website input changes no value that is read, only the key.\<close>

lemma registerWebsite_fields:
  "firstName (registerWebsite d) = firstName d"
  "lastName (registerWebsite d) = lastName d"
  "company (registerWebsite d) = company d"
  "email (registerWebsite d) = email d"
  "message (registerWebsite d) = message d"
  "memberValue (website (registerWebsite d)) = memberValue (website d)"
  by (simp_all add: registerWebsite_def trim_Nil split: option.splits)

lemma changeCompany_fields:
  "firstName (changeCompany v d) = firstName d"
  "lastName (changeCompany v d) = lastName d"
  "company (changeCompany v d) = Present (setValueAs (Some v))"
  "email (changeCompany v d) = email d"
  "message (changeCompany v d) = message d"
  "memberValue (website (changeCompany v d)) = memberValue (website d)"
  by (simp_all add: changeCompany_def Let_def registerWebsite_fields)

lemma changeCompany_eq:
  "changeCompany v d =
     d\<lparr>company := Present (setValueAs (Some v)),
       website := (if trim v \<noteq> [] \<and> memberValue (website d) = None then Present None
                   else website d)\<rparr>"
  by (auto simp: changeCompany_def Let_def registerWebsite_def companyValue_def trim_Nil
      split: option.splits)

subsection \<open>The issues of the schema\<close>

lemma issue_paths:
  "fst ` set (schema_issues z d) = {f. \<not> satisfiesRule z d f}"
proof -
  have "f \<in> fst ` set (schema_issues z d) \<longleftrightarrow> \<not> satisfiesRule z d f" for f
    by (cases f) (auto simp: schema_issues_def string_min_def split: option.splits)
  then show ?thesis by blast
qed

lemma distinct_issue_paths: "distinct (map fst (schema_issues z d))"
  by (simp add: schema_issues_def string_min_def split: option.splits)

lemma fieldValues_website_issue:
  "map_of (schema_issues z (fieldValues c)) Website \<noteq> None \<longleftrightarrow>
     trim (websiteText c) \<noteq> [] \<and> z_url z (websiteText c) = None"
  by (auto simp: schema_issues_def string_min_def fieldValues_def split: option.splits)

subsection \<open>The lifecycle\<close>

text \<open>Every candidate is held by some state of the mounted form.\<close>

lemma enter_reaches:
  "formValues (run z initialState (enter c)) = fieldValues c \<and>
   \<not> isSubmitting (run z initialState (enter c)) \<and>
   pending (run z initialState (enter c)) = [] \<and> alerts (run z initialState (enter c)) = []"
proof -
  have x: "trim (js ''x'') \<noteq> []" "js ''x'' \<noteq> []"
    by (simp_all add: trim_def js_def isWhiteSpace_def)
  show ?thesis
    by (simp add: enter_def run_def initialState_def fieldValues_def companyValue_def
        changeCompany_eq x trim_Nil)
qed

lemma reachable_run: "reachable z (run z initialState es)"
proof (induction es rule: rev_induct)
  case Nil
  show ?case by (simp add: run_def reachable_init)
next
  case (snoc e es)
  then show ?case by (simp add: run_def reachable_step)
qed

lemma handleSubmit_valid:
  "schema_issues z (formValues s) = [] \<Longrightarrow>
   handleSubmit z s =
     s\<lparr>errors := [], isSubmitting := True,
       pending := pending s @ [schema_output z (formValues s)]\<rparr>"
  by (simp add: handleSubmit_def zodResolver_def)

lemma handleSubmit_invalid:
  "schema_issues z (formValues s) \<noteq> [] \<Longrightarrow>
   handleSubmit z s = s\<lparr>errors := schema_issues z (formValues s)\<rparr>"
  by (simp add: handleSubmit_def zodResolver_def)

text \<open>
  Submitting a valid candidate from the mounted form: one pending \<open>onSubmit\<close>, whose
  record is the parsed one, and one alert of that record once the timer has fired.
\<close>

lemma submit_valid_candidate:
  assumes v: "schema_issues z (fieldValues c) = []"
  shows "pending (run z initialState (enter c @ [Submit])) = [schema_output z (fieldValues c)]"
    and "alerts (run z initialState (enter c @ [Submit, TimerFires])) =
           [json_members (schema_output z (fieldValues c))]"
proof -
  let ?s = "run z initialState (enter c)"
  let ?data = "schema_output z (fieldValues c)"
  from enter_reaches [of z c] have fv: "formValues ?s = fieldValues c"
    and ns: "\<not> isSubmitting ?s" and np: "pending ?s = []"
    and na: "alerts ?s = []" by simp_all
  have r: "run z initialState (enter c @ [Submit]) = step z ?s Submit"
    by (simp add: run_def)
  have st: "step z ?s Submit = ?s\<lparr>errors := [], isSubmitting := True, pending := [?data]\<rparr>"
    using v fv ns np by (simp add: handleSubmit_valid)
  show "pending (run z initialState (enter c @ [Submit])) = [?data]"
    unfolding r st by simp
  have r2: "run z initialState (enter c @ [Submit, TimerFires]) =
        step z (step z ?s Submit) TimerFires"
    by (simp add: run_def)
  show "alerts (run z initialState (enter c @ [Submit, TimerFires])) = [json_members ?data]"
    unfolding r2 st using na by simp
qed

text \<open>
  At most one \<open>onSubmit\<close> is pending, and \<^verbatim>\<open>isSubmitting\<close> is set exactly while one is.
\<close>

lemma lifecycle_invariant:
  "reachable z s \<Longrightarrow> length (pending s) \<le> 1 \<and> (isSubmitting s \<longleftrightarrow> pending s \<noteq> [])"
proof (induction rule: reachable.induct)
  case reachable_init
  show ?case by (simp add: initialState_def)
next
  case (reachable_step s ev)
  show ?case
  proof (cases ev)
    case (Change f v)
    with reachable_step.IH show ?thesis by (cases f) simp_all
  next
    case Submit
    show ?thesis
    proof (cases "isSubmitting s")
      case True
      with Submit reachable_step.IH show ?thesis by simp
    next
      case False
      with reachable_step.IH have "pending s = []" by simp
      with Submit False show ?thesis
        by (cases "schema_issues z (formValues s) = []")
           (simp_all add: handleSubmit_valid handleSubmit_invalid)
    qed
  next
    case TimerFires
    with reachable_step.IH show ?thesis by (cases "pending s") auto
  qed
qed

section \<open>The conditional website field\<close>

text \<open>
  \<^bold>\<open>C1.\<close> For every candidate, website is among the active fields if and only if the
  company text, trimmed, is not empty; a company text of whitespace only leaves website
  inactive. The same holds in every state of the form right after a change of company.
\<close>

theorem website_active_iff:
  "(Website \<in> activeFields (fieldValues c) \<longleftrightarrow> trim (companyText c) \<noteq> []) \<and>
   ((\<forall>ch\<in>set (companyText c). isWhiteSpace ch) \<longrightarrow> Website \<notin> activeFields (fieldValues c)) \<and>
   (Website \<in> activeFields (formValues (step z s (Change Company v))) \<longleftrightarrow> trim v \<noteq> [])"
  by (auto simp: activeFields_def companyValue_def fieldValues_def truthy_setValueAs
      trim_empty_iff trim_Nil changeCompany_fields simp del: setValueAs.simps)

theorem website_active_iff_witness:
  "trim (companyText twoSpaces) = [] \<and> Website \<notin> activeFields (fieldValues twoSpaces) \<and>
   Website \<in> activeFields (fieldValues scenarioB)"
proof -
  have "trim (companyText twoSpaces) = []" "trim (companyText scenarioB) \<noteq> []"
    by (simp_all add: twoSpaces_def emptyForm_def scenarioB_def trim_def js_def isWhiteSpace_def)
  with website_active_iff [of twoSpaces] website_active_iff [of scenarioB] show ?thesis by simp
qed

text \<open>
  \<^bold>\<open>C2.\<close> The claim that a blank company discards the held website value fails. After the
  user has entered a company and a website text, and cleared the company again, website is
  inactive, but the form still holds the website value: a submit reports
  \<^verbatim>\<open>Invalid URL\<close> for it and calls no \<open>onSubmit\<close>; and when the held text is a URL,
  the submitted record carries the website member.
\<close>

theorem stale_website_counterexample:
  "companyValue (formValues (run referenceZod initialState staleWebsite)) = None \<and>
   Website \<notin> activeFields (formValues (run referenceZod initialState staleWebsite)) \<and>
   errors (run referenceZod initialState (staleWebsite @ [Submit])) = [(Website, ''Invalid URL'')] \<and>
   pending (run referenceZod initialState (staleWebsite @ [Submit])) = [] \<and>
   Website \<notin> activeFields (formValues (run referenceZod initialState staleValidWebsite)) \<and>
   alerts (run referenceZod initialState (staleValidWebsite @ [Submit, TimerFires])) =
     [[(FirstName, js ''John''), (LastName, js ''Doe''), (Website, js ''https://acme.io''),
       (Email, js ''j@x.com''), (Message, js ''0123456789'')]]"
  by (simp add: staleWebsite_def staleValidWebsite_def eval_defs)

text \<open>
  \<^bold>\<open>C2, as amended.\<close> For every candidate whose company text is empty or whitespace only,
  website is inactive, and the website value the form holds is kept: the schema reports a
  website error exactly when the website text is not blank and the URL check rejects it,
  and when the candidate is valid and its website text is not blank, the record handed to
  \<open>onSubmit\<close>, and alerted, has a website member.
\<close>

theorem blank_company_keeps_website:
  "trim (companyText c) = [] \<Longrightarrow>
     Website \<notin> activeFields (fieldValues c) \<and>
     (map_of (schema_issues z (fieldValues c)) Website \<noteq> None \<longleftrightarrow>
        trim (websiteText c) \<noteq> [] \<and> z_url z (websiteText c) = None) \<and>
     (trim (websiteText c) \<noteq> [] \<and> schema_issues z (fieldValues c) = [] \<longrightarrow>
        (\<exists>data. pending (run z initialState (enter c @ [Submit])) = [data] \<and>
                 Website \<in> fst ` set (json_members data) \<and>
                 alerts (run z initialState (enter c @ [Submit, TimerFires])) =
                   [json_members data]))"
proof (intro conjI impI)
  assume b: "trim (companyText c) = []"
  then show "Website \<notin> activeFields (fieldValues c)"
    by (simp add: activeFields_def companyValue_def fieldValues_def)
  show "map_of (schema_issues z (fieldValues c)) Website \<noteq> None \<longleftrightarrow>
        trim (websiteText c) \<noteq> [] \<and> z_url z (websiteText c) = None"
    by (rule fieldValues_website_issue)
next
  assume v: "trim (websiteText c) \<noteq> [] \<and> schema_issues z (fieldValues c) = []"
  let ?data = "schema_output z (fieldValues c)"
  from v have "map_of (schema_issues z (fieldValues c)) Website = None" by simp
  with fieldValues_website_issue [of z c] v have "z_url z (websiteText c) \<noteq> None" by auto
  with v have "Website \<in> fst ` set (json_members ?data)"
    by (auto simp: json_members_def schema_output_def fieldValues_def split: option.splits)
  with submit_valid_candidate [of z c] v
  show "\<exists>data. pending (run z initialState (enter c @ [Submit])) = [data] \<and>
                 Website \<in> fst ` set (json_members data) \<and>
                 alerts (run z initialState (enter c @ [Submit, TimerFires])) =
                   [json_members data]"
    by blast
qed

theorem blank_company_keeps_website_witness:
  "trim (companyText staleCandidate) = [] \<and>
   Website \<notin> activeFields (fieldValues staleCandidate) \<and>
   map_of (schema_issues referenceZod (fieldValues staleCandidate)) Website = None \<and>
   (\<exists>data. pending (run referenceZod initialState (enter staleCandidate @ [Submit])) = [data] \<and>
            Website \<in> fst ` set (json_members data))"
proof -
  have b: "trim (companyText staleCandidate) = []"
    by (simp add: staleCandidate_def scenarioB_def trim_def js_def isWhiteSpace_def)
  have w: "trim (websiteText staleCandidate) \<noteq> []"
    by (simp add: staleCandidate_def scenarioB_def trim_def js_def isWhiteSpace_def)
  have v: "schema_issues referenceZod (fieldValues staleCandidate) = []"
    by (simp add: staleCandidate_def scenarioB_def eval_defs)
  from blank_company_keeps_website [OF b, of referenceZod] b w v show ?thesis by auto
qed

section \<open>The validator\<close>

text \<open>
  \<^bold>\<open>C3.\<close> For every record, the errors have an entry for a member exactly when that member
  fails its own rule: every failing active field is reported, all together, and a member
  that satisfies its rule has no entry. A candidate whose four required texts are empty and
  which has no website text yields the four errors of the required members and no website
  error. (That the email check rejects the empty string is what the test suite observes on
  the empty form.)
\<close>

theorem all_failing_fields_reported:
  "(\<forall>f. map_of (schema_issues z d) f \<noteq> None \<longleftrightarrow> \<not> satisfiesRule z d f) \<and>
   (\<forall>f. f \<in> activeFields d \<and> \<not> satisfiesRule z d f \<longrightarrow> f \<in> fst ` set (schema_issues z d)) \<and>
   (firstNameText c = [] \<and> lastNameText c = [] \<and> emailText c = [] \<and> messageText c = [] \<and>
    trim (websiteText c) = [] \<and> \<not> z_email z [] \<longrightarrow>
      zodResolver z (fieldValues c) =
        Inl [(FirstName, ''First name must be at least 2 characters.''),
             (LastName, ''Last name must be at least 2 characters.''),
             (Email, ''Please enter a valid email address.''),
             (Message, ''Message must be at least 10 characters.'')])"
proof (intro conjI allI impI)
  fix f
  show "map_of (schema_issues z d) f \<noteq> None \<longleftrightarrow> \<not> satisfiesRule z d f"
    using issue_paths [of z d] by (auto simp: map_of_eq_None_iff)
next
  fix f
  assume "f \<in> activeFields d \<and> \<not> satisfiesRule z d f"
  then show "f \<in> fst ` set (schema_issues z d)"
    using issue_paths [of z d] by simp
next
  assume "firstNameText c = [] \<and> lastNameText c = [] \<and> emailText c = [] \<and>
    messageText c = [] \<and> trim (websiteText c) = [] \<and> \<not> z_email z []"
  then show "zodResolver z (fieldValues c) =
        Inl [(FirstName, ''First name must be at least 2 characters.''),
             (LastName, ''Last name must be at least 2 characters.''),
             (Email, ''Please enter a valid email address.''),
             (Message, ''Message must be at least 10 characters.'')]"
    by (simp add: zodResolver_def schema_issues_def string_min_def fieldValues_def)
qed

theorem all_failing_fields_reported_witness:
  "\<not> z_email referenceZod [] \<and>
   zodResolver referenceZod (fieldValues emptyForm) =
     Inl [(FirstName, ''First name must be at least 2 characters.''),
          (LastName, ''Last name must be at least 2 characters.''),
          (Email, ''Please enter a valid email address.''),
          (Message, ''Message must be at least 10 characters.'')] \<and>
   map_of (schema_issues referenceZod (fieldValues emptyForm)) Website = None \<and>
   Website \<in> activeFields (fieldValues scenarioB) \<and>
   \<not> satisfiesRule referenceZod (fieldValues scenarioB) Website \<and>
   Website \<in> fst ` set (schema_issues referenceZod (fieldValues scenarioB))"
proof -
  have e: "\<not> z_email referenceZod []"
    by (simp add: referenceZod_def emailShape_def)
  have t: "firstNameText emptyForm = [] \<and> lastNameText emptyForm = [] \<and>
    emailText emptyForm = [] \<and> messageText emptyForm = [] \<and> trim (websiteText emptyForm) = []"
    by (simp add: emptyForm_def trim_Nil)
  have w: "satisfiesRule referenceZod (fieldValues emptyForm) Website"
    by (simp add: fieldValues_def emptyForm_def trim_Nil)
  have a: "Website \<in> activeFields (fieldValues scenarioB)"
    by (simp add: scenarioB_def eval_defs)
  have n: "\<not> satisfiesRule referenceZod (fieldValues scenarioB) Website"
    by (simp add: scenarioB_def eval_defs)
  from all_failing_fields_reported [of referenceZod "fieldValues emptyForm" emptyForm]
    all_failing_fields_reported [of referenceZod "fieldValues scenarioB" emptyForm] e t w a n
  show ?thesis by blast
qed

text \<open>
  \<^bold>\<open>C5.\<close> On John Doe of Acme with the website text \<^verbatim>\<open>not-a-url\<close>, the validator returns
  errors with exactly one entry, for website, whenever the email check accepts
  \<^verbatim>\<open>j@x.com\<close> and the URL check rejects \<^verbatim>\<open>not-a-url\<close>. For every record, no member has
  more than one issue.
\<close>

theorem one_error_per_field:
  "(z_email z (js ''j@x.com'') \<and> z_url z (js ''not-a-url'') = None \<longrightarrow>
      zodResolver z (fieldValues scenarioB) = Inl [(Website, ''Invalid URL'')]) \<and>
   distinct (map fst (schema_issues z d)) \<and>
   (\<forall>f. length (filter (\<lambda>i. fst i = f) (schema_issues z d)) \<le> 1)"
proof (intro conjI allI impI)
  assume "z_email z (js ''j@x.com'') \<and> z_url z (js ''not-a-url'') = None"
  moreover have "trim (js ''Acme'') \<noteq> []" "trim (js ''not-a-url'') \<noteq> []"
    by (simp_all add: trim_def js_def isWhiteSpace_def)
  ultimately show "zodResolver z (fieldValues scenarioB) = Inl [(Website, ''Invalid URL'')]"
    by (simp add: zodResolver_def schema_issues_def string_min_def fieldValues_def scenarioB_def)
       (simp add: js_def)
next
  show "distinct (map fst (schema_issues z d))" by (rule distinct_issue_paths)
next
  fix f
  show "length (filter (\<lambda>i. fst i = f) (schema_issues z d)) \<le> 1"
    by (simp add: schema_issues_def string_min_def split: option.splits)
qed

theorem one_error_per_field_witness:
  "z_email referenceZod (js ''j@x.com'') \<and> z_url referenceZod (js ''not-a-url'') = None \<and>
   zodResolver referenceZod (fieldValues scenarioB) = Inl [(Website, ''Invalid URL'')]"
proof -
  have "z_email referenceZod (js ''j@x.com'')" "z_url referenceZod (js ''not-a-url'') = None"
    by (simp_all add: eval_defs)
  with one_error_per_field [of referenceZod] show ?thesis by blast
qed

text \<open>
  \<^bold>\<open>C9.\<close> The name texts are held as entered and are not trimmed before the length check:
  a first name (or last name) of at least two code units, all of them whitespace,
  satisfies its rule and gets no error entry.
\<close>

theorem whitespace_names_pass:
  "firstName (fieldValues c) = firstNameText c \<and> lastName (fieldValues c) = lastNameText c \<and>
   (2 \<le> length (firstNameText c) \<and> (\<forall>ch\<in>set (firstNameText c). isWhiteSpace ch) \<longrightarrow>
      satisfiesRule z (fieldValues c) FirstName \<and>
      map_of (schema_issues z (fieldValues c)) FirstName = None) \<and>
   (2 \<le> length (lastNameText c) \<and> (\<forall>ch\<in>set (lastNameText c). isWhiteSpace ch) \<longrightarrow>
      satisfiesRule z (fieldValues c) LastName \<and>
      map_of (schema_issues z (fieldValues c)) LastName = None)"
  by (auto simp: fieldValues_def schema_issues_def string_min_def split: option.splits)

theorem whitespace_names_pass_witness:
  "length (firstNameText twoSpaces) = 2 \<and> trim (firstNameText twoSpaces) = [] \<and>
   map_of (schema_issues referenceZod (fieldValues twoSpaces)) FirstName = None \<and>
   length (lastNameText twoSpaces) = 2 \<and> trim (lastNameText twoSpaces) = [] \<and>
   map_of (schema_issues referenceZod (fieldValues twoSpaces)) LastName = None"
proof -
  have l: "length (firstNameText twoSpaces) = 2" "length (lastNameText twoSpaces) = 2"
    by (simp_all add: twoSpaces_def emptyForm_def js_def)
  have t: "trim (firstNameText twoSpaces) = []" "trim (lastNameText twoSpaces) = []"
    by (simp_all add: twoSpaces_def emptyForm_def trim_def js_def isWhiteSpace_def)
  from t have "\<forall>ch\<in>set (firstNameText twoSpaces). isWhiteSpace ch"
    "\<forall>ch\<in>set (lastNameText twoSpaces). isWhiteSpace ch"
    by (simp_all only: trim_empty_iff)
  with whitespace_names_pass [of twoSpaces referenceZod] l t show ?thesis by simp
qed

text \<open>
  \<^bold>\<open>C10.\<close> On every record that supplies the four required members only, the schema of
  the second component and the schema of the contact form accept the same inputs, and
  report issues for the same members; only the messages differ.
\<close>

theorem contact_schema_agrees:
  "(contact_schema_issues z d = [] \<longleftrightarrow> schema_issues z (requiredOnly d) = []) \<and>
   map fst (contact_schema_issues z d) = map fst (schema_issues z (requiredOnly d))"
  by (simp add: contact_schema_issues_def schema_issues_def requiredOnly_def string_min_def)

theorem contact_schema_agrees_witness:
  "contact_schema_issues referenceZod contactJane = [] \<and>
   schema_issues referenceZod (requiredOnly contactJane) = [] \<and>
   map fst (schema_issues referenceZod (requiredOnly contactEmpty)) =
     [FirstName, LastName, Email, Message] \<and>
   map fst (contact_schema_issues referenceZod contactEmpty) =
     [FirstName, LastName, Email, Message]"
proof -
  have "contact_schema_issues referenceZod contactJane = []"
    by (simp add: contact_schema_issues_def contactJane_def eval_defs)
  moreover have "map fst (contact_schema_issues referenceZod contactEmpty) =
     [FirstName, LastName, Email, Message]"
    by (simp add: contact_schema_issues_def contactEmpty_def eval_defs)
  ultimately show ?thesis
    using contact_schema_agrees [of referenceZod contactJane]
      contact_schema_agrees [of referenceZod contactEmpty] by simp
qed

section \<open>Submission\<close>

text \<open>
  Every record handed to \<open>onSubmit\<close> has the company key, and what the key holds is
  \<^verbatim>\<open>undefined\<close> or a string that is not blank.
\<close>

lemma company_key_invariant:
  "reachable z s \<Longrightarrow>
     keyHoldsNormalized (company (formValues s)) \<and>
     list_all (\<lambda>d. keyHoldsNormalized (company d)) (pending s)"
proof (induction rule: reachable.induct)
  case reachable_init
  show ?case by (simp add: initialState_def keyHoldsNormalized_def trim_Nil)
next
  case (reachable_step s ev)
  show ?case
  proof (cases ev)
    case (Change f v)
    with reachable_step.IH show ?thesis
      by (cases f) (simp_all add: changeCompany_fields keyHoldsNormalized_def)
  next
    case Submit
    show ?thesis
    proof (cases "schema_issues z (formValues s) = []")
      case True
      with Submit reachable_step.IH show ?thesis
        by (simp add: handleSubmit_valid schema_output_def)
    next
      case False
      with Submit reachable_step.IH show ?thesis
        by (simp add: handleSubmit_invalid)
    qed
  next
    case TimerFires
    with reachable_step.IH show ?thesis by (cases "pending s") simp_all
  qed
qed

text \<open>
  \<^bold>\<open>C4.\<close> The claim that the record handed to the submit action has no company key at
  all fails. With the required inputs valid and a company text of three spaces, the record
  handed to \<open>onSubmit\<close> has the keys of the five registered inputs, company among them,
  and the company key holds \<^verbatim>\<open>undefined\<close>.
\<close>

theorem company_key_counterexample:
  "trim (js ''   '') = [] \<and>
   pending (run referenceZod initialState (janeSmith @ [Submit])) =
     [\<lparr>firstName = js ''Jane'', lastName = js ''Smith'', company = Present None,
       website = Absent, email = js ''jane@example.com'',
       message = js ''more than ten chars''\<rparr>] \<and>
   map ownKeys (pending (run referenceZod initialState (janeSmith @ [Submit]))) =
     [[FirstName, LastName, Company, Email, Message]]"
  by (simp add: janeSmith_def eval_defs)

text \<open>
  \<^bold>\<open>C4, as amended.\<close> For every valid candidate whose company text is empty or whitespace
  only, the record handed to \<open>onSubmit\<close> keeps the company key, which holds
  \<^verbatim>\<open>undefined\<close> and not an empty string; the company member is missing only from the
  JSON text that is alerted. In every reachable state, each record handed to \<open>onSubmit\<close>
  has the company key, holding \<^verbatim>\<open>undefined\<close> or a string that is not blank. The four
  required members are held as entered; an empty name or message gets the error of its
  length rule, and an empty email the email error when the email check rejects the empty
  string.
\<close>

theorem blank_company_undefined:
  "(trim (companyText c) = [] \<and> schema_issues z (fieldValues c) = [] \<longrightarrow>
      (\<exists>data. pending (run z initialState (enter c @ [Submit])) = [data] \<and>
               company data = Present None \<and>
               Company \<in> set (ownKeys data) \<and>
               Company \<notin> fst ` set (json_members data) \<and>
               alerts (run z initialState (enter c @ [Submit, TimerFires])) =
                 [json_members data])) \<and>
   (reachable z s \<and> d \<in> set (pending s) \<longrightarrow>
      Company \<in> set (ownKeys d) \<and> keyHoldsNormalized (company d)) \<and>
   firstName (fieldValues c) = firstNameText c \<and>
   lastName (fieldValues c) = lastNameText c \<and>
   email (fieldValues c) = emailText c \<and>
   message (fieldValues c) = messageText c \<and>
   (firstNameText c = [] \<longrightarrow>
      map_of (schema_issues z (fieldValues c)) FirstName =
        Some ''First name must be at least 2 characters.'') \<and>
   (lastNameText c = [] \<longrightarrow>
      map_of (schema_issues z (fieldValues c)) LastName =
        Some ''Last name must be at least 2 characters.'') \<and>
   (messageText c = [] \<longrightarrow>
      map_of (schema_issues z (fieldValues c)) Message =
        Some ''Message must be at least 10 characters.'') \<and>
   (emailText c = [] \<and> \<not> z_email z [] \<longrightarrow>
      map_of (schema_issues z (fieldValues c)) Email =
        Some ''Please enter a valid email address.'')"
proof (intro conjI impI)
  assume v: "trim (companyText c) = [] \<and> schema_issues z (fieldValues c) = []"
  let ?data = "schema_output z (fieldValues c)"
  from v have c: "company ?data = Present None"
    by (simp add: schema_output_def fieldValues_def)
  then have "Company \<in> set (ownKeys ?data)" "Company \<notin> fst ` set (json_members ?data)"
    by (auto simp: ownKeys_def json_members_def split: option.splits)
  with c submit_valid_candidate [of z c] v
  show "\<exists>data. pending (run z initialState (enter c @ [Submit])) = [data] \<and>
               company data = Present None \<and>
               Company \<in> set (ownKeys data) \<and>
               Company \<notin> fst ` set (json_members data) \<and>
               alerts (run z initialState (enter c @ [Submit, TimerFires])) =
                 [json_members data]"
    by blast
next
  assume r: "reachable z s \<and> d \<in> set (pending s)"
  with company_key_invariant [of z s] have k: "keyHoldsNormalized (company d)"
    by (simp add: list_all_iff)
  then show "Company \<in> set (ownKeys d)"
    by (cases "company d") (simp_all add: ownKeys_def keyHoldsNormalized_def)
  from k show "keyHoldsNormalized (company d)" .
qed (simp_all add: fieldValues_def schema_issues_def string_min_def split: option.splits)

theorem blank_company_undefined_witness:
  "trim (companyText blankCompany) = [] \<and>
   alerts (run referenceZod initialState (enter blankCompany @ [Submit, TimerFires])) =
     [[(FirstName, js ''Jane''), (LastName, js ''Smith''), (Email, js ''jane@example.com''),
       (Message, js ''more than ten chars'')]] \<and>
   (\<exists>data. pending (run referenceZod initialState (enter blankCompany @ [Submit])) = [data] \<and>
            company data = Present None \<and> Company \<in> set (ownKeys data) \<and>
            Company \<notin> fst ` set (json_members data)) \<and>
   list_all (\<lambda>d. Company \<in> set (ownKeys d))
     (pending (run referenceZod initialState (janeSmith @ [Submit]))) \<and>
   pending (run referenceZod initialState (janeSmith @ [Submit])) \<noteq> [] \<and>
   map_of (schema_issues referenceZod (fieldValues emptyForm)) FirstName =
     Some ''First name must be at least 2 characters.''"
proof -
  let ?s = "run referenceZod initialState (janeSmith @ [Submit])"
  have b: "trim (companyText blankCompany) = []"
    by (simp add: blankCompany_def trim_def js_def isWhiteSpace_def)
  have v: "schema_issues referenceZod (fieldValues blankCompany) = []"
    by (simp add: blankCompany_def eval_defs)
  have a: "alerts (run referenceZod initialState (enter blankCompany @ [Submit, TimerFires])) =
     [[(FirstName, js ''Jane''), (LastName, js ''Smith''), (Email, js ''jane@example.com''),
       (Message, js ''more than ten chars'')]]"
    by (simp add: blankCompany_def enter_def eval_defs)
  have e: "firstNameText emptyForm = []" by (simp add: emptyForm_def)
  have n: "pending ?s \<noteq> []"
    by (simp add: janeSmith_def eval_defs)
  have k: "Company \<in> set (ownKeys d)" if "d \<in> set (pending ?s)" for d
    using blank_company_undefined [of blankCompany referenceZod ?s d] reachable_run that
    by blast
  then have l: "list_all (\<lambda>d. Company \<in> set (ownKeys d)) (pending ?s)"
    by (simp add: list_all_iff)
  from blank_company_undefined [of blankCompany referenceZod ?s undefined]
    blank_company_undefined [of emptyForm referenceZod ?s undefined] b v a e n l
  show ?thesis by auto
qed

text \<open>
  \<^bold>\<open>C6.\<close> In every reachable state at most one \<open>onSubmit\<close> is pending, and while the form
  is submitting, activating the submit button, once or any number of times, leaves the
  whole state as it is: no further \<open>onSubmit\<close> is called and \<^verbatim>\<open>isSubmitting\<close> stays set.
\<close>

theorem submit_while_submitting_ignored:
  "reachable z s \<Longrightarrow>
     length (pending s) \<le> 1 \<and>
     (isSubmitting s \<longrightarrow> step z s Submit = s \<and> run z s (replicate n Submit) = s)"
proof -
  assume r: "reachable z s"
  have "isSubmitting s \<Longrightarrow> run z s (replicate n Submit) = s"
    by (induction n) (simp_all add: run_def)
  with lifecycle_invariant [OF r] show ?thesis by simp
qed

theorem submit_while_submitting_ignored_witness:
  "isSubmitting (run referenceZod initialState (janeSmith @ [Submit])) \<and>
   pending (run referenceZod initialState (janeSmith @ [Submit, Submit])) =
     [\<lparr>firstName = js ''Jane'', lastName = js ''Smith'', company = Present None, website = Absent,
       email = js ''jane@example.com'', message = js ''more than ten chars''\<rparr>] \<and>
   step referenceZod (run referenceZod initialState (janeSmith @ [Submit])) Submit =
     run referenceZod initialState (janeSmith @ [Submit])"
proof -
  have s: "isSubmitting (run referenceZod initialState (janeSmith @ [Submit]))"
    by (simp add: janeSmith_def eval_defs)
  have p: "pending (run referenceZod initialState (janeSmith @ [Submit, Submit])) =
     [\<lparr>firstName = js ''Jane'', lastName = js ''Smith'', company = Present None, website = Absent,
       email = js ''jane@example.com'', message = js ''more than ten chars''\<rparr>]"
    by (simp add: janeSmith_def eval_defs)
  from submit_while_submitting_ignored
    [OF reachable_run, of referenceZod "janeSmith @ [Submit]" 1] s p
  show ?thesis by blast
qed

end
